theory Spec2Isabelle
  imports Main
begin

section \<open>The training supervisor of \<^verbatim>\<open>src/train.py\<close>\<close>

text \<open>
  The development embeds the orchestration code of \<^verbatim>\<open>train.py\<close>: the persisted
  \<^verbatim>\<open>TrainingMetadata\<close> (\<^verbatim>\<open>save\<close> and \<^verbatim>\<open>load\<close>), the epoch loop of
  \<^verbatim>\<open>do_training\<close> with its \<^verbatim>\<open>try\<close>/\<^verbatim>\<open>except\<close>/\<^verbatim>\<open>finally\<close> frame, and the
  operator console of \<^verbatim>\<open>do_management\<close>. The external collaborators (the model
  library, the file system, the operator) are made explicit: what they do in a
  run is a parameter of the model.
\<close>

subsection \<open>Exceptions\<close>

text \<open>
  The exceptions the code can meet. All of them are subclasses of Python's
  \<^verbatim>\<open>Exception\<close>, so the handler \<^verbatim>\<open>except Exception as e\<close> catches each of them.
\<close>

datatype py_exception =
    ExecutorError
  | IOError
  | FileNotFoundError
  | JSONDecodeError
  | KeyError string
  | TypeError
  | EOFError

subsection \<open>Paths\<close>

text \<open>
  Modelled from the spec: the class \<^verbatim>\<open>LocalPath\<close> of \<^verbatim>\<open>lib_path\<close> is not among the
  sources. The spec calls a tokenizer reference an opaque path and the persisted
  field \<^verbatim>\<open>tokenizer_index\<close> a string path relative to a project root. A
  \<^verbatim>\<open>LocalPath\<close> is therefore modelled as the project-relative path it denotes:
  \<^verbatim>\<open>get_project_relative_path()\<close> returns that string, the constructor applied to
  that string gives the path back, and two paths are equal when their strings are.
  \<^verbatim>\<open>join\<close> appends components, separated by a slash.
\<close>

datatype LocalPath = LocalPath string

fun get_project_relative_path :: "LocalPath \<Rightarrow> string" where
  "get_project_relative_path (LocalPath p) = p"

fun join :: "LocalPath \<Rightarrow> string list \<Rightarrow> LocalPath" where
  "join (LocalPath p) cs = LocalPath (foldl (\<lambda>acc c. acc @ ''/'' @ c) p cs)"

subsection \<open>Documents and files\<close>

text \<open>
  The values \<^verbatim>\<open>json.load\<close> returns and \<^verbatim>\<open>json.dump\<close> accepts (numbers with a
  fraction are left out: the code stores none). An object lists its members in
  order; the keys of a parsed object are distinct.
\<close>

datatype json =
    JNull
  | JBool bool
  | JInt int
  | JString string
  | JArray "json list"
  | JObject "(string \<times> json) list"

text \<open>
  What a file holds, as far as \<^verbatim>\<open>json.load\<close> can tell: a complete JSON text
  (given by the value it denotes), no bytes at all (the state \<^verbatim>\<open>open(path, 'w')\<close>
  leaves behind before anything is written), or some other text that is not JSON.
\<close>

datatype file_data = Json_text json | Empty_file | Other_text

text \<open>
  The file system maps the path handed to \<^verbatim>\<open>open\<close> (the absolute path of a
  \<^verbatim>\<open>LocalPath\<close>, identified here with the \<^verbatim>\<open>LocalPath\<close>) to the file's content.
\<close>

type_synonym filesystem = "LocalPath \<rightharpoonup> file_data"

subsection \<open>\<^verbatim>\<open>TrainingMetadata\<close>\<close>

record TrainingMetadata =
  training_iterations :: int
  tokenizer_index :: LocalPath

text \<open>The dictionary \<^verbatim>\<open>save\<close> hands to \<^verbatim>\<open>json.dump\<close> (lines 48 to 51).\<close>

definition metadata_json :: "TrainingMetadata \<Rightarrow> json" where
  "metadata_json m =
     JObject [(''training_iterations'', JInt (training_iterations m)),
              (''tokenizer_index'', JString (get_project_relative_path (tokenizer_index m)))]"

text \<open>
  \<^verbatim>\<open>TrainingMetadata.save\<close> (lines 41 to 54) in the order the file system sees it:
  \<^verbatim>\<open>open(path, 'w')\<close> creates or truncates the file in place, then \<^verbatim>\<open>json.dump\<close>
  writes the document into the same file, which the \<^verbatim>\<open>with\<close> block closes.
  \<open>save_steps\<close> lists the file-system states a save goes through, in order.
\<close>

definition save_steps :: "TrainingMetadata \<Rightarrow> LocalPath \<Rightarrow> filesystem \<Rightarrow> filesystem list" where
  "save_steps m out_file files =
     [files(out_file \<mapsto> Empty_file),
      files(out_file \<mapsto> Json_text (metadata_json m))]"

text \<open>
  The whole of \<^verbatim>\<open>save\<close>. Whether the storage refuses the write is decided outside
  the program, so it is a parameter: when \<open>unwritable\<close> holds, \<^verbatim>\<open>open\<close> raises and
  nothing is changed.
\<close>

definition save :: "bool \<Rightarrow> TrainingMetadata \<Rightarrow> LocalPath \<Rightarrow> filesystem \<Rightarrow> py_exception + filesystem" where
  "save unwritable m out_file files =
     (if unwritable then Inl IOError else Inr (last (save_steps m out_file files)))"

text \<open>
  \<^verbatim>\<open>data[key]\<close> on what \<^verbatim>\<open>json.load\<close> returned: a missing key of an object is a
  \<^verbatim>\<open>KeyError\<close>, and subscripting anything but an object with a string is a
  \<^verbatim>\<open>TypeError\<close>.
\<close>

fun subscript :: "json \<Rightarrow> string \<Rightarrow> py_exception + json" where
  "subscript (JObject kvs) k = (case map_of kvs k of None \<Rightarrow> Inl (KeyError k) | Some v \<Rightarrow> Inr v)"
| "subscript _ k = Inl TypeError"

text \<open>
  \<^verbatim>\<open>TrainingMetadata.load\<close> (lines 56 to 73). The two fields are read in the order
  of the keyword arguments. The source does not check the types of the values it
  reads: from a document whose fields are not an integer and a string, the Python
  builds an object holding those values, and fails, if at all, only where they
  are used (line 278 adds the step count, inside the \<^verbatim>\<open>try\<close> block). The record
  here has the types the class declares, so it cannot hold such values; this
  model answers such a document with \<open>TypeError\<close> at once, earlier than the code
  would, and nothing below is stated about such documents.
\<close>

definition load :: "LocalPath \<Rightarrow> filesystem \<Rightarrow> py_exception + TrainingMetadata" where
  "load in_file files =
     (case files in_file of
        None \<Rightarrow> Inl FileNotFoundError
      | Some Empty_file \<Rightarrow> Inl JSONDecodeError
      | Some Other_text \<Rightarrow> Inl JSONDecodeError
      | Some (Json_text data) \<Rightarrow>
          (case subscript data ''training_iterations'' of
             Inl e \<Rightarrow> Inl e
           | Inr ti \<Rightarrow>
               (case subscript data ''tokenizer_index'' of
                  Inl e \<Rightarrow> Inl e
                | Inr tk \<Rightarrow>
                    (case (ti, tk) of
                       (JInt n, JString p) \<Rightarrow>
                         Inr \<lparr>training_iterations = n, tokenizer_index = LocalPath p\<rparr>
                     | _ \<Rightarrow> Inl TypeError))))"

subsection \<open>Decimal numerals\<close>

text \<open>
  The text an f-string puts for an integer (line 286 names a checkpoint
  directory \<^verbatim>\<open>f"checkpoint-{training_meta.training_iterations}"\<close>): decimal digits,
  with a minus sign in front of a negative number.
\<close>

definition digit_char :: "nat \<Rightarrow> char" where
  "digit_char d = ''0123456789'' ! d"

fun str_nat :: "nat \<Rightarrow> string" where
  "str_nat n = (if n < 10 then [digit_char n] else str_nat (n div 10) @ [digit_char (n mod 10)])"

declare str_nat.simps [simp del]

definition str_int :: "int \<Rightarrow> string" where
  "str_int i = (if i < 0 then CHR ''-'' # str_nat (nat (- i)) else str_nat (nat i))"

subsection \<open>What a run does to the outside\<close>

text \<open>
  Console text is a sequence of Unicode code points, as a Python \<^verbatim>\<open>str\<close> is.
\<close>

type_synonym py_str = "nat list"

text \<open>The log lines of \<^verbatim>\<open>train.py\<close>, one constructor per call of the logger.\<close>

datatype message =
    Saving_model_into string
  | Different_tokenizer_index LocalPath LocalPath
  | Completed_training_epoch int int int
  | Checkpoint_saved_into string
  | Failed_to_train py_exception
  | Gracefully_shut_down
  | Completed_epochs int int int
  | Model_saved_into string
  | Type_quit_to_stop
  | Attempting_graceful_shutdown
  | Management_commands_available
  | Quit_command_description
  | Unrecognized_command py_str

text \<open>
  The calls that leave the program, in the order they are made: log lines by
  level, \<^verbatim>\<open>model.train\<close> (output directory, \<^verbatim>\<open>num_steps\<close>, \<^verbatim>\<open>generate_every\<close>),
  \<^verbatim>\<open>model.save\<close> that returned, a metadata save that returned, and the start of the
  training thread.
\<close>

datatype event =
    Info message
  | Warn message
  | Error message
  | Model_train LocalPath int int
  | Model_save LocalPath
  | Metadata_save LocalPath TrainingMetadata
  | Training_thread_start

subsection \<open>The parameters of \<^verbatim>\<open>train\<close>\<close>

text \<open>
  The arguments of \<^verbatim>\<open>train\<close> that \<^verbatim>\<open>do_training\<close> reads (the dataset, the model
  configuration and the GPU flag only reach the model library). They are what
  \<^verbatim>\<open>parse_args\<close> returns: each integer option is declared with \<^verbatim>\<open>type=int\<close> and
  nothing else, so any integer is accepted.
\<close>

record train_args =
  output_parent_dir :: LocalPath
  model_name :: string
  invocation_tokenizer_index :: LocalPath
  sample_every :: int
  target_epochs :: int
  train_epoch_steps :: int
  checkpoint_every_epochs :: int

text \<open>
  What the outside does during one pass of the loop body: whether \<^verbatim>\<open>model.train\<close>
  raises, whether the console thread sets the shutdown event while the pass runs,
  whether the storage refuses the progress save of line 282, whether
  \<^verbatim>\<open>model.save\<close> raises, and whether the storage refuses the metadata copy of
  line 289.
\<close>

record epoch_env =
  train_raises :: bool
  quit_during :: bool
  save_unwritable :: bool
  model_save_raises :: bool
  checkpoint_unwritable :: bool

text \<open>
  What the outside does during a run: whether the event is set before the loop
  condition is first evaluated, the passes of the loop body in order, and
  whether the storage refuses the save of line 299.
\<close>

record run_env =
  quit_before :: bool
  epochs :: "epoch_env list"
  final_unwritable :: bool

subsection \<open>\<^verbatim>\<open>do_training\<close>\<close>

text \<open>
  The variables of \<^verbatim>\<open>do_training\<close>, the shutdown event it shares with the console
  thread, and the file system.
\<close>

record worker =
  training_meta :: TrainingMetadata
  num_epochs :: int
  num_epochs_since_checkpoint :: int
  should_graceful_exit :: bool
  fs :: filesystem

definition output_dir :: "train_args \<Rightarrow> LocalPath" where
  "output_dir a = join (output_parent_dir a) [model_name a]"

definition training_meta_path :: "train_args \<Rightarrow> LocalPath" where
  "training_meta_path a = join (output_dir a) [''training-metadata.json'']"

definition checkpoint_dir :: "train_args \<Rightarrow> TrainingMetadata \<Rightarrow> LocalPath" where
  "checkpoint_dir a m = join (output_dir a) [''checkpoint-'' @ str_int (training_iterations m)]"

text \<open>The condition of the \<^verbatim>\<open>while\<close> (line 264).\<close>

definition loop_condition :: "train_args \<Rightarrow> worker \<Rightarrow> bool" where
  "loop_condition a w =
     (\<not> should_graceful_exit w \<and> (num_epochs w < target_epochs a \<or> target_epochs a < 0))"

text \<open>The condition of the \<^verbatim>\<open>if\<close> that guards the checkpoint (line 285).\<close>

definition should_checkpoint :: "int \<Rightarrow> int \<Rightarrow> bool" where
  "should_checkpoint epochs_since_checkpoint cadence = (epochs_since_checkpoint \<ge> cadence)"

text \<open>
  One pass of the loop body (lines 266 to 292). The result is the exception that
  left the body, if any, the variables afterwards, and the calls made. The only
  place the shutdown event changes is the disjunction in the first line: the
  console thread can set it, and nothing clears it.
\<close>

definition epoch_body :: "train_args \<Rightarrow> epoch_env \<Rightarrow> worker \<Rightarrow> py_exception option \<times> worker \<times> event list" where
  "epoch_body a e w =
     (let w1 = w\<lparr>should_graceful_exit := should_graceful_exit w \<or> quit_during e\<rparr>;
          ev1 = [Model_train (output_dir a) (train_epoch_steps a) (sample_every a)]
      in if train_raises e then (Some ExecutorError, w1, ev1)
      else
        let m = (training_meta w1)\<lparr>training_iterations :=
                  training_iterations (training_meta w1) + train_epoch_steps a\<rparr>;
            w2 = w1\<lparr>num_epochs := num_epochs w1 + 1,
                    num_epochs_since_checkpoint := num_epochs_since_checkpoint w1 + 1,
                    training_meta := m\<rparr>;
            ev2 = ev1 @ [Info (Completed_training_epoch (num_epochs w2) (train_epoch_steps a)
                                 (training_iterations m))]
        in case save (save_unwritable e) m (training_meta_path a) (fs w2) of
             Inl x \<Rightarrow> (Some x, w2, ev2)
           | Inr fs3 \<Rightarrow>
               let w3 = w2\<lparr>fs := fs3\<rparr>;
                   ev3 = ev2 @ [Metadata_save (training_meta_path a) m]
               in if should_checkpoint (num_epochs_since_checkpoint w3) (checkpoint_every_epochs a)
                  then
                    if model_save_raises e then (Some IOError, w3, ev3)
                    else
                      let ev4 = ev3 @ [Model_save (checkpoint_dir a m)];
                          copy = join (checkpoint_dir a m) [''training-metadata.json'']
                      in case save (checkpoint_unwritable e) m copy (fs w3) of
                           Inl x \<Rightarrow> (Some x, w3, ev4)
                         | Inr fs4 \<Rightarrow>
                             (None,
                              w3\<lparr>fs := fs4, num_epochs_since_checkpoint := 0\<rparr>,
                              ev4 @ [Metadata_save copy m,
                                     Info (Checkpoint_saved_into
                                       (get_project_relative_path (checkpoint_dir a m)))])
                  else (None, w3, ev3))"

text \<open>
  The \<^verbatim>\<open>while\<close> loop (lines 264 to 292). The list holds what the outside does in
  the passes to come; a loop that wants another pass when the list is used up has
  not finished within the passes described, which is the result \<open>None\<close>. An
  exception that leaves the body leaves the loop: the \<^verbatim>\<open>try\<close> encloses the loop.
\<close>

fun training_loop :: "train_args \<Rightarrow> epoch_env list \<Rightarrow> worker \<Rightarrow> (py_exception option \<times> worker \<times> event list) option" where
  "training_loop a [] w = (if loop_condition a w then None else Some (None, w, []))"
| "training_loop a (e # es) w =
     (if loop_condition a w then
        (case epoch_body a e w of
           (Some x, w', evs) \<Rightarrow> Some (Some x, w', evs)
         | (None, w', evs) \<Rightarrow>
             (case training_loop a es w' of
                None \<Rightarrow> None
              | Some (x, w'', evs') \<Rightarrow> Some (x, w'', evs @ evs')))
      else Some (None, w, []))"

text \<open>
  Lines 244 to 254: the metadata a run starts from, with the warning it logs when
  the stored tokenizer index is not the invocation's. \<^verbatim>\<open>load\<close> is called outside
  the \<^verbatim>\<open>try\<close>, so its exceptions leave \<^verbatim>\<open>do_training\<close>.
\<close>

definition initial_metadata :: "train_args \<Rightarrow> filesystem \<Rightarrow> py_exception + TrainingMetadata \<times> event list" where
  "initial_metadata a files =
     (if files (training_meta_path a) \<noteq> None then
        (case load (training_meta_path a) files of
           Inl x \<Rightarrow> Inl x
         | Inr m \<Rightarrow>
             if tokenizer_index m \<noteq> invocation_tokenizer_index a
             then Inr (m\<lparr>tokenizer_index := invocation_tokenizer_index a\<rparr>,
                       [Warn (Different_tokenizer_index (tokenizer_index m)
                                (invocation_tokenizer_index a))])
             else Inr (m, []))
      else Inr (\<lparr>training_iterations = 0, tokenizer_index = invocation_tokenizer_index a\<rparr>, []))"

text \<open>
  How a call of \<^verbatim>\<open>do_training\<close> ends: the exception that left it, if any, the
  exception its handler caught, if any, its variables at the end, and the calls
  made.
\<close>

record run_result =
  propagated :: "py_exception option"
  caught :: "py_exception option"
  final :: worker
  events :: "event list"

text \<open>
  The \<^verbatim>\<open>except\<close> and \<^verbatim>\<open>finally\<close> clauses (lines 293 to 302), applied to the way the
  loop was left. The handler logs the exception and does not raise it again. An
  exception of the save in the \<^verbatim>\<open>finally\<close> clause leaves \<^verbatim>\<open>do_training\<close>, and the
  two log lines after it are not reached.
\<close>

definition terminal_handling :: "train_args \<Rightarrow> bool \<Rightarrow> py_exception option \<Rightarrow> worker \<Rightarrow> event list \<Rightarrow> run_result" where
  "terminal_handling a unwritable x w evs =
     (let ev_except = (case x of None \<Rightarrow> [] | Some e \<Rightarrow> [Error (Failed_to_train e)]);
          ev_exit = (if should_graceful_exit w then [Info Gracefully_shut_down] else [])
      in case save unwritable (training_meta w) (training_meta_path a) (fs w) of
           Inl e \<Rightarrow>
             \<lparr>propagated = Some e, caught = x, final = w,
              events = evs @ ev_except @ ev_exit\<rparr>
         | Inr fs' \<Rightarrow>
             \<lparr>propagated = None, caught = x, final = w\<lparr>fs := fs'\<rparr>,
              events = evs @ ev_except @ ev_exit @
                [Metadata_save (training_meta_path a) (training_meta w),
                 Info (Completed_epochs (num_epochs w) (train_epoch_steps a * num_epochs w)
                         (training_iterations (training_meta w))),
                 Info (Model_saved_into (get_project_relative_path (output_dir a)))]\<rparr>)"

text \<open>\<^verbatim>\<open>do_training\<close> (lines 232 to 302).\<close>

definition do_training :: "train_args \<Rightarrow> run_env \<Rightarrow> filesystem \<Rightarrow> run_result option" where
  "do_training a env files =
     (let ev0 = [Info (Saving_model_into (get_project_relative_path (output_dir a)))]
      in case initial_metadata a files of
           Inl x \<Rightarrow>
             Some \<lparr>propagated = Some x, caught = None,
                   final = \<lparr>training_meta = \<lparr>training_iterations = 0,
                                tokenizer_index = invocation_tokenizer_index a\<rparr>,
                            num_epochs = 0, num_epochs_since_checkpoint = 0,
                            should_graceful_exit = quit_before env, fs = files\<rparr>,
                   events = ev0\<rparr>
         | Inr (m, warnings) \<Rightarrow>
             (case training_loop a (epochs env)
                     \<lparr>training_meta = m, num_epochs = 0, num_epochs_since_checkpoint = 0,
                      should_graceful_exit = quit_before env, fs = files\<rparr> of
                None \<Rightarrow> None
              | Some (x, w, evs) \<Rightarrow>
                  Some (terminal_handling a (final_unwritable env) x w (ev0 @ warnings @ evs))))"

text \<open>
  Modelled from the spec: the source has no variable for the state of the worker;
  section 4.4 of the spec names the states a run ends in. A run is \<open>Failed\<close> when
  an exception left the loop, \<open>Stopping\<close> when the loop ended with the shutdown
  event set, and \<open>Completed\<close> when it ended because the epoch target was reached.
\<close>

datatype run_state = Stopping | Completed | Failed

definition end_state :: "run_result \<Rightarrow> run_state" where
  "end_state r =
     (if caught r \<noteq> None then Failed
      else if should_graceful_exit (final r) then Stopping
      else Completed)"

text \<open>
  The epochs after which \<^verbatim>\<open>model.save\<close> was called, read off the calls of a run:
  the epoch is the number in the last \<^verbatim>\<open>Completed training epoch\<close> line before
  the call (\<open>cur\<close> while no such line has been seen).
\<close>

fun checkpoint_epochs :: "int \<Rightarrow> event list \<Rightarrow> int list" where
  "checkpoint_epochs cur [] = []"
| "checkpoint_epochs cur (Info (Completed_training_epoch n s t) # evs) = checkpoint_epochs n evs"
| "checkpoint_epochs cur (Model_save d # evs) = cur # checkpoint_epochs cur evs"
| "checkpoint_epochs cur (ev # evs) = checkpoint_epochs cur evs"

text \<open>The directories \<^verbatim>\<open>model.save\<close> wrote, and the number of calls of \<^verbatim>\<open>model.train\<close>.\<close>

fun checkpoints :: "event list \<Rightarrow> LocalPath list" where
  "checkpoints [] = []"
| "checkpoints (Model_save d # evs) = d # checkpoints evs"
| "checkpoints (ev # evs) = checkpoints evs"

fun train_calls :: "event list \<Rightarrow> nat" where
  "train_calls [] = 0"
| "train_calls (Model_train d n g # evs) = Suc (train_calls evs)"
| "train_calls (ev # evs) = train_calls evs"


definition calm :: epoch_env where
  "calm = \<lparr>train_raises = False, quit_during = False, save_unwritable = False,
           model_save_raises = False, checkpoint_unwritable = False\<rparr>"

text \<open>The warnings among the calls of a run.\<close>

fun warnings_of :: "event list \<Rightarrow> message list" where
  "warnings_of [] = []"
| "warnings_of (Warn m # evs) = m # warnings_of evs"
| "warnings_of (ev # evs) = warnings_of evs"

text \<open>
  The arguments \<^verbatim>\<open>parse_args\<close> returns when the command line gives none
  (lines 76 to 140), for use in examples.
\<close>

definition default_args :: train_args where
  "default_args =
     \<lparr>output_parent_dir = LocalPath ''models'', model_name = ''model'',
      invocation_tokenizer_index = LocalPath ''training-data/tokenizer-index.json'',
      sample_every = 100, target_epochs = - 1, train_epoch_steps = 100,
      checkpoint_every_epochs = 5\<rparr>"

subsection \<open>\<^verbatim>\<open>do_management\<close>\<close>

text \<open>
  The code points \<^verbatim>\<open>str.strip()\<close> removes: those for which \<^verbatim>\<open>str.isspace\<close> holds.
\<close>

definition isspace :: "nat \<Rightarrow> bool" where
  "isspace c =
     ((9 \<le> c \<and> c \<le> 13) \<or> (28 \<le> c \<and> c \<le> 32) \<or> c = 133 \<or> c = 160 \<or> c = 5760
      \<or> (8192 \<le> c \<and> c \<le> 8202) \<or> c = 8232 \<or> c = 8233 \<or> c = 8239 \<or> c = 8287
      \<or> c = 12288)"

definition strip :: "py_str \<Rightarrow> py_str" where
  "strip s = rev (dropWhile isspace (rev (dropWhile isspace s)))"

text \<open>A string literal of the source as code points.\<close>

definition literal :: "string \<Rightarrow> py_str" where
  "literal s = map of_char s"

text \<open>
  How the console thread ends: the exception that left it, if any, whether it
  set the shutdown event, the calls it made, and the lines it did not read.
\<close>

record console_result =
  console_raised :: "py_exception option"
  signal_set :: bool
  console_events :: "event list"
  unread :: "py_str list"

text \<open>
  The \<^verbatim>\<open>while True\<close> loop (lines 322 to 333) over the lines \<^verbatim>\<open>input()\<close> will
  return. At the end of the input, \<^verbatim>\<open>input()\<close> raises \<^verbatim>\<open>EOFError\<close>.
\<close>

fun console_loop :: "py_str list \<Rightarrow> console_result" where
  "console_loop [] =
     \<lparr>console_raised = Some EOFError, signal_set = False, console_events = [], unread = []\<rparr>"
| "console_loop (line # lines) =
     (let user_input = strip line
      in if user_input = literal ''quit'' then
           \<lparr>console_raised = None, signal_set = True,
            console_events = [Info Attempting_graceful_shutdown], unread = lines\<rparr>
         else if user_input = literal ''help'' then
           (let r = console_loop lines
            in r\<lparr>console_events :=
                   [Info Management_commands_available, Info Quit_command_description]
                   @ console_events r\<rparr>)
         else
           (let r = console_loop lines
            in r\<lparr>console_events := Info (Unrecognized_command user_input) # console_events r\<rparr>))"

text \<open>\<^verbatim>\<open>do_management\<close> (lines 313 to 333); the lines after the loop are never reached.\<close>

definition do_management :: "py_str list \<Rightarrow> console_result" where
  "do_management lines =
     (let r = console_loop lines
      in r\<lparr>console_events := [Info Type_quit_to_stop, Training_thread_start] @ console_events r\<rparr>)"

subsection \<open>Persistence laws\<close>

lemma path_roundtrip: "LocalPath (get_project_relative_path p) = p"
  by (cases p) simp

lemma load_metadata_json:
  "files out_file = Some (Json_text (metadata_json m)) \<Longrightarrow> load out_file files = Inr m"
  by (simp add: load_def metadata_json_def path_roundtrip)

text \<open>
  Claim C8. Saving a progress value and loading from the same location gives the
  value back, and a second save of the same value leaves exactly the file system
  the first save produced.
\<close>

theorem save_load_roundtrip:
  "\<exists>files'. save False m loc files = Inr files'
     \<and> load loc files' = Inr m
     \<and> save False m loc files' = Inr files'"
  by (simp add: save_def save_steps_def load_metadata_json)

theorem save_load_roundtrip_witness:
  "\<exists>files'.
     save False \<lparr>training_iterations = 300, tokenizer_index = LocalPath ''tok.json''\<rparr>
       (LocalPath ''models/model/training-metadata.json'') Map.empty = Inr files'
     \<and> load (LocalPath ''models/model/training-metadata.json'') files'
         = Inr \<lparr>training_iterations = 300, tokenizer_index = LocalPath ''tok.json''\<rparr>
     \<and> save False \<lparr>training_iterations = 300, tokenizer_index = LocalPath ''tok.json''\<rparr>
       (LocalPath ''models/model/training-metadata.json'') files' = Inr files'"
  using save_load_roundtrip
    [of "\<lparr>training_iterations = 300, tokenizer_index = LocalPath ''tok.json''\<rparr>"
        "LocalPath ''models/model/training-metadata.json''" Map.empty]
  by simp


subsection \<open>Facts about the loop\<close>

lemmas run_defs = do_training_def initial_metadata_def terminal_handling_def epoch_body_def
  loop_condition_def should_checkpoint_def save_def save_steps_def Let_def
  training_meta_path_def output_dir_def checkpoint_dir_def calm_def

lemma copy_path_neq: "join (checkpoint_dir a m) [''training-metadata.json''] \<noteq> training_meta_path a"
  by (cases "output_parent_dir a") (simp add: checkpoint_dir_def training_meta_path_def output_dir_def)






lemma warnings_of_append: "warnings_of (xs @ ys) = warnings_of xs @ warnings_of ys"
  by (induction xs rule: warnings_of.induct) simp_all




lemma terminal_handling_events:
  "\<exists>tail. events (terminal_handling a u x w evs) = evs @ tail
      \<and> checkpoints tail = [] \<and> train_calls tail = 0 \<and> warnings_of tail = []"
  by (cases x) (auto simp: terminal_handling_def save_def Let_def)

lemma terminal_handling_final:
  "caught (terminal_handling a u x w evs) = x"
  "propagated (terminal_handling a u x w evs) = (if u then Some IOError else None)"
  "num_epochs (final (terminal_handling a u x w evs)) = num_epochs w"
  "num_epochs_since_checkpoint (final (terminal_handling a u x w evs)) = num_epochs_since_checkpoint w"
  "training_meta (final (terminal_handling a u x w evs)) = training_meta w"
  "should_graceful_exit (final (terminal_handling a u x w evs)) = should_graceful_exit w"
  by (simp_all add: terminal_handling_def save_def Let_def)

lemma do_training_cases:
  assumes "do_training a env files = Some r"
  obtains (load_raised) x where "initial_metadata a files = Inl x"
      and "r = \<lparr>propagated = Some x, caught = None,
                   final = \<lparr>training_meta = \<lparr>training_iterations = 0,
                                tokenizer_index = invocation_tokenizer_index a\<rparr>,
                            num_epochs = 0, num_epochs_since_checkpoint = 0,
                            should_graceful_exit = quit_before env, fs = files\<rparr>,
                   events = [Info (Saving_model_into (get_project_relative_path (output_dir a)))]\<rparr>"
  | (looped) m ws x w evs where "initial_metadata a files = Inr (m, ws)"
      and "training_loop a (epochs env)
             \<lparr>training_meta = m, num_epochs = 0, num_epochs_since_checkpoint = 0,
              should_graceful_exit = quit_before env, fs = files\<rparr> = Some (x, w, evs)"
      and "r = terminal_handling a (final_unwritable env) x w
                 ([Info (Saving_model_into (get_project_relative_path (output_dir a)))] @ ws @ evs)"
  using assms by (auto simp: do_training_def Let_def split: sum.splits option.splits)

lemma str_int_500: "str_int 500 = ''500''"
  by (simp add: str_int_def str_nat.simps digit_char_def)

lemma str_int_1000: "str_int 1000 = ''1000''"
  by (simp add: str_int_def str_nat.simps digit_char_def)

lemma training_loop_stop: "\<not> loop_condition a w \<Longrightarrow> training_loop a es w = Some (None, w, [])"
  by (cases es) simp_all






lemma replicate_12: "replicate 12 x = [x, x, x, x, x, x, x, x, x, x, x, x]"
  by (simp add: eval_nat_numeral)


subsection \<open>Checkpoint cadence\<close>




subsection \<open>The scenario of twelve epochs\<close>

text \<open>
  Claim C5. A run that starts without a progress file, with cadence 5, target 12
  and 100 steps per epoch, in which the shutdown event is never set and nothing
  raises, returns after exactly 12 calls of \<^verbatim>\<open>model.train\<close>, with the two
  checkpoints \<^verbatim>\<open>checkpoint-500\<close> and \<^verbatim>\<open>checkpoint-1000\<close> (after epochs 5 and 10),
  a persisted iteration count of 1200, and in the state \<open>Completed\<close>.
\<close>

theorem twelve_epochs_run:
  assumes "target_epochs a = 12" "train_epoch_steps a = 100" "checkpoint_every_epochs a = 5"
    and "files (training_meta_path a) = None"
    and "quit_before env = False" "final_unwritable env = False"
    and "epochs env = replicate n calm" "12 \<le> n"
  shows "\<exists>r. do_training a env files = Some r
     \<and> propagated r = None \<and> caught r = None \<and> end_state r = Completed
     \<and> num_epochs (final r) = 12 \<and> train_calls (events r) = 12
     \<and> checkpoints (events r) = [join (output_dir a) [''checkpoint-500''], join (output_dir a) [''checkpoint-1000'']]
     \<and> checkpoint_epochs 0 (events r) = [5, 10]
     \<and> training_iterations (training_meta (final r)) = 1200
     \<and> load (training_meta_path a) (fs (final r))
         = Inr \<lparr>training_iterations = 1200, tokenizer_index = invocation_tokenizer_index a\<rparr>"
proof -
  from \<open>12 \<le> n\<close> obtain k where n: "n = 12 + k" using le_Suc_ex by blast
  have es: "epochs env = [calm, calm, calm, calm, calm, calm, calm, calm, calm, calm, calm, calm] @ replicate k calm"
    by (simp add: assms(7) n replicate_add replicate_12)
  show ?thesis
    using assms(1-6)
    by (cases "output_parent_dir a")
       (simp add: run_defs es end_state_def str_int_500 str_int_1000 training_loop_stop
          load_def metadata_json_def path_roundtrip)
qed

theorem twelve_epochs_run_witness:
  "\<exists>r. do_training (default_args\<lparr>target_epochs := 12\<rparr>)
          \<lparr>quit_before = False, epochs = replicate 12 calm, final_unwritable = False\<rparr>
          Map.empty = Some r
     \<and> end_state r = Completed
     \<and> train_calls (events r) = 12
     \<and> checkpoints (events r)
         = [LocalPath ''models/model/checkpoint-500'', LocalPath ''models/model/checkpoint-1000'']
     \<and> training_iterations (training_meta (final r)) = 1200"
  using twelve_epochs_run [of "default_args\<lparr>target_epochs := 12\<rparr>" Map.empty
      "\<lparr>quit_before = False, epochs = replicate 12 calm, final_unwritable = False\<rparr>" 12]
  by (auto simp: default_args_def output_dir_def)

subsection \<open>The tokenizer of the invocation wins\<close>

lemma epoch_body_keeps:
  "epoch_body a e w = (x, w', evs) \<Longrightarrow>
     warnings_of evs = [] \<and> tokenizer_index (training_meta w') = tokenizer_index (training_meta w)"
  by (auto simp: epoch_body_def Let_def save_def split: if_splits)

lemma training_loop_keeps:
  "training_loop a es w = Some (x, w', evs) \<Longrightarrow>
     warnings_of evs = [] \<and> tokenizer_index (training_meta w') = tokenizer_index (training_meta w)"
proof (induction es arbitrary: w x w' evs)
  case Nil
  then show ?case by (auto split: if_splits)
next
  case (Cons e es)
  show ?case
  proof (cases "loop_condition a w")
    case False
    with Cons.prems show ?thesis by auto
  next
    case True
    obtain x1 w1 evs1 where body: "epoch_body a e w = (x1, w1, evs1)" by (cases "epoch_body a e w")
    note k1 = epoch_body_keeps [OF body]
    show ?thesis
    proof (cases x1)
      case (Some exn)
      with Cons.prems True body k1 show ?thesis by auto
    next
      case None
      with Cons.prems True body obtain evs2 where
        loop: "training_loop a es w1 = Some (x, w', evs2)" and evs: "evs = evs1 @ evs2"
        by (auto split: option.splits)
      from Cons.IH [OF loop] k1 show ?thesis by (simp add: evs warnings_of_append)
    qed
  qed
qed

text \<open>
  Claim C6. When the progress file exists and records a tokenizer index other
  than the invocation's, loading succeeds, the metadata the run starts from has
  the invocation's tokenizer index and the stored iteration count, exactly one
  warning is logged in the whole run, and the invocation's tokenizer index stays
  in place to the end of the run.
\<close>

theorem tokenizer_override:
  assumes "files (training_meta_path a) = Some (Json_text (JObject kvs))"
    and "map_of kvs ''training_iterations'' = Some (JInt n)"
    and "map_of kvs ''tokenizer_index'' = Some (JString p)"
    and "LocalPath p \<noteq> invocation_tokenizer_index a"
  shows "load (training_meta_path a) files = Inr \<lparr>training_iterations = n, tokenizer_index = LocalPath p\<rparr>
    \<and> initial_metadata a files =
        Inr (\<lparr>training_iterations = n, tokenizer_index = invocation_tokenizer_index a\<rparr>,
             [Warn (Different_tokenizer_index (LocalPath p) (invocation_tokenizer_index a))])
    \<and> (do_training a env files = Some r \<longrightarrow>
          warnings_of (events r) = [Different_tokenizer_index (LocalPath p) (invocation_tokenizer_index a)]
          \<and> tokenizer_index (training_meta (final r)) = invocation_tokenizer_index a)"
proof -
  have ld: "load (training_meta_path a) files = Inr \<lparr>training_iterations = n, tokenizer_index = LocalPath p\<rparr>"
    using assms(1-3) by (simp add: load_def)
  have im: "initial_metadata a files =
        Inr (\<lparr>training_iterations = n, tokenizer_index = invocation_tokenizer_index a\<rparr>,
             [Warn (Different_tokenizer_index (LocalPath p) (invocation_tokenizer_index a))])"
    using assms(1,4) by (simp add: initial_metadata_def ld)
  have "warnings_of (events r) = [Different_tokenizer_index (LocalPath p) (invocation_tokenizer_index a)]
          \<and> tokenizer_index (training_meta (final r)) = invocation_tokenizer_index a"
    if run: "do_training a env files = Some r"
    using run
  proof (cases rule: do_training_cases)
    case (load_raised x)
    with im show ?thesis by simp
  next
    case (looped m ws x w evs)
    from looped(1) im have m: "m = \<lparr>training_iterations = n, tokenizer_index = invocation_tokenizer_index a\<rparr>"
      and ws: "ws = [Warn (Different_tokenizer_index (LocalPath p) (invocation_tokenizer_index a))]"
      by simp_all
    note k = training_loop_keeps [OF looped(2)]
    obtain tail where tail: "events r = ([Info (Saving_model_into (get_project_relative_path (output_dir a)))] @ ws @ evs) @ tail"
      "warnings_of tail = []"
      using terminal_handling_events looped(3) by blast
    have "warnings_of (events r) = [Different_tokenizer_index (LocalPath p) (invocation_tokenizer_index a)]"
      using k tail(2) by (simp add: tail(1) ws warnings_of_append)
    moreover have "tokenizer_index (training_meta (final r)) = invocation_tokenizer_index a"
      using k by (simp add: looped(3) terminal_handling_final m)
    ultimately show ?thesis by simp
  qed
  with ld im show ?thesis by blast
qed

theorem tokenizer_override_witness:
  "\<exists>r. do_training default_args
          \<lparr>quit_before = True, epochs = [], final_unwritable = False\<rparr>
          [training_meta_path default_args \<mapsto>
             Json_text (JObject [(''training_iterations'', JInt 300),
                                 (''tokenizer_index'', JString ''old/tokenizer-index.json'')])]
        = Some r
     \<and> warnings_of (events r)
         = [Different_tokenizer_index (LocalPath ''old/tokenizer-index.json'')
              (LocalPath ''training-data/tokenizer-index.json'')]
     \<and> training_meta (final r)
         = \<lparr>training_iterations = 300,
            tokenizer_index = LocalPath ''training-data/tokenizer-index.json''\<rparr>"
proof -
  let ?files = "[training_meta_path default_args \<mapsto>
             Json_text (JObject [(''training_iterations'', JInt 300),
                                 (''tokenizer_index'', JString ''old/tokenizer-index.json'')])]"
  let ?env = "\<lparr>quit_before = True, epochs = [], final_unwritable = False\<rparr>"
  obtain r where run: "do_training default_args ?env ?files = Some r"
    and its: "training_iterations (training_meta (final r)) = 300"
    by (simp add: run_defs default_args_def load_def)
  from tokenizer_override [of ?files default_args _ 300 "''old/tokenizer-index.json''" ?env r] run its
  show ?thesis by (auto simp: default_args_def)
qed

subsection \<open>Shutdown at the epoch boundary\<close>

lemma training_loop_singleton_pass:
  assumes "loop_condition a w" and "epoch_body a e w = (x, w', evs)" and "should_graceful_exit w'"
  shows "training_loop a (e # es) w = Some (x, w', evs)"
proof (cases x)
  case None
  have "\<not> loop_condition a w'" using assms(3) by (simp add: loop_condition_def)
  then have "training_loop a es w' = Some (None, w', [])" by (rule training_loop_stop)
  with assms(1,2) None show ?thesis by simp
next
  case (Some exn)
  with assms(1,2) show ?thesis by simp
qed

lemma epoch_body_sets_event:
  "quit_during e \<Longrightarrow> should_graceful_exit (fst (snd (epoch_body a e w)))"
  by (simp add: epoch_body_def Let_def save_def split: sum.splits)

lemma epoch_body_progress:
  assumes "\<not> train_raises e" and "\<not> save_unwritable e"
    and "epoch_body a e w = (x, w', evs)"
  shows "num_epochs w' = num_epochs w + 1"
    and "training_iterations (training_meta w')
           = training_iterations (training_meta w) + train_epoch_steps a"
    and "fs w' (training_meta_path a) = Some (Json_text (metadata_json (training_meta w')))"
    and "Metadata_save (training_meta_path a) (training_meta w') \<in> set evs"
    and "train_calls evs = 1"
  using assms copy_path_neq [of a]
  by (auto simp: epoch_body_def Let_def save_def save_steps_def split: if_splits)

text \<open>
  Claim C1. Let the loop be about to start epoch \<open>k\<close> (the condition holds at a
  state with \<open>k - 1\<close> epochs counted) and let the shutdown event be set while the
  pass runs. Then the loop ends with this pass, whatever passes the outside had
  in store: no further epoch starts. When the training step and the progress save
  of the pass do not raise, the pass completes: the epoch is counted, the
  iteration count has grown by the steps of the epoch, the progress file holds
  that count, the save of line 282 was made, and \<^verbatim>\<open>model.train\<close> was called once. A
  loop that finds the event set runs no pass, and a pass never clears the event.
\<close>

theorem shutdown_respects_epoch_boundary:
  assumes "loop_condition a w" and "quit_during e"
  shows "training_loop a (e # es) w = Some (epoch_body a e w)
    \<and> (\<not> train_raises e \<and> \<not> save_unwritable e \<longrightarrow>
         (\<exists>x w' evs. training_loop a (e # es) w = Some (x, w', evs)
            \<and> num_epochs w' = num_epochs w + 1
            \<and> training_iterations (training_meta w')
                = training_iterations (training_meta w) + train_epoch_steps a
            \<and> fs w' (training_meta_path a) = Some (Json_text (metadata_json (training_meta w')))
            \<and> load (training_meta_path a) (fs w') = Inr (training_meta w')
            \<and> Metadata_save (training_meta_path a) (training_meta w') \<in> set evs
            \<and> train_calls evs = 1
            \<and> should_graceful_exit w'))
    \<and> (should_graceful_exit w0 \<longrightarrow> training_loop a es0 w0 = Some (None, w0, [])
          \<and> should_graceful_exit (fst (snd (epoch_body a e0 w0))))"
proof (intro conjI impI)
  obtain x w' evs where body: "epoch_body a e w = (x, w', evs)" by (cases "epoch_body a e w")
  have set: "should_graceful_exit w'"
    using epoch_body_sets_event [OF assms(2), of a w] by (simp add: body)
  show run: "training_loop a (e # es) w = Some (epoch_body a e w)"
    using training_loop_singleton_pass [OF assms(1) body set] by (simp add: body)
  show "\<exists>x w' evs. training_loop a (e # es) w = Some (x, w', evs)
            \<and> num_epochs w' = num_epochs w + 1
            \<and> training_iterations (training_meta w')
                = training_iterations (training_meta w) + train_epoch_steps a
            \<and> fs w' (training_meta_path a) = Some (Json_text (metadata_json (training_meta w')))
            \<and> load (training_meta_path a) (fs w') = Inr (training_meta w')
            \<and> Metadata_save (training_meta_path a) (training_meta w') \<in> set evs
            \<and> train_calls evs = 1
            \<and> should_graceful_exit w'"
    if ok: "\<not> train_raises e \<and> \<not> save_unwritable e"
  proof -
    from ok have t: "\<not> train_raises e" and s: "\<not> save_unwritable e" by simp_all
    note p = epoch_body_progress [OF t s body]
    from run body p set load_metadata_json [of "fs w'" "training_meta_path a" "training_meta w'"] show ?thesis by simp
  qed
next
  assume "should_graceful_exit w0"
  then have "\<not> loop_condition a w0" by (simp add: loop_condition_def)
  then show "training_loop a es0 w0 = Some (None, w0, [])" by (rule training_loop_stop)
next
  assume "should_graceful_exit w0"
  then show "should_graceful_exit (fst (snd (epoch_body a e0 w0)))"
    by (simp add: epoch_body_def Let_def save_def split: sum.splits)
qed


theorem shutdown_respects_epoch_boundary_witness:
  "loop_condition default_args
     \<lparr>training_meta = \<lparr>training_iterations = 200, tokenizer_index = LocalPath ''tok''\<rparr>,
      num_epochs = 2, num_epochs_since_checkpoint = 2, should_graceful_exit = False,
      fs = Map.empty\<rparr>
   \<and> quit_during (calm\<lparr>quit_during := True\<rparr>)
   \<and> (\<exists>x w' evs.
        training_loop default_args [calm\<lparr>quit_during := True\<rparr>, calm]
          \<lparr>training_meta = \<lparr>training_iterations = 200, tokenizer_index = LocalPath ''tok''\<rparr>,
           num_epochs = 2, num_epochs_since_checkpoint = 2, should_graceful_exit = False,
           fs = Map.empty\<rparr> = Some (x, w', evs)
        \<and> num_epochs w' = 3
        \<and> training_iterations (training_meta w') = 300
        \<and> load (training_meta_path default_args) (fs w') = Inr (training_meta w')
        \<and> train_calls evs = 1
        \<and> should_graceful_exit w')"
proof -
  let ?w = "\<lparr>training_meta = \<lparr>training_iterations = 200, tokenizer_index = LocalPath ''tok''\<rparr>,
      num_epochs = 2, num_epochs_since_checkpoint = 2, should_graceful_exit = False,
      fs = Map.empty\<rparr>"
  have c: "loop_condition default_args ?w" by (simp add: loop_condition_def default_args_def)
  have q: "quit_during (calm\<lparr>quit_during := True\<rparr>)" by simp
  have ok: "\<not> train_raises (calm\<lparr>quit_during := True\<rparr>) \<and> \<not> save_unwritable (calm\<lparr>quit_during := True\<rparr>)"
    by (simp add: calm_def)
  have steps: "train_epoch_steps default_args = 100" by (simp add: default_args_def)
  from shutdown_respects_epoch_boundary [OF c q, of "[calm]"] ok
  obtain x w' evs where
    "training_loop default_args [calm\<lparr>quit_during := True\<rparr>, calm] ?w = Some (x, w', evs)"
    "num_epochs w' = num_epochs ?w + 1"
    "training_iterations (training_meta w')
       = training_iterations (training_meta ?w) + train_epoch_steps default_args"
    "load (training_meta_path default_args) (fs w') = Inr (training_meta w')"
    "train_calls evs = 1" "should_graceful_exit w'"
    by blast
  with c q steps show ?thesis by simp
qed

subsection \<open>Exceptions in the loop\<close>

text \<open>
  Claim C2 does not hold: with a cadence of 1 and a target of 2 epochs, a
  \<^verbatim>\<open>model.save\<close> that raises after the first epoch (or a progress copy that cannot
  be written) ends the loop. \<^verbatim>\<open>model.train\<close> is called once, not twice.
\<close>

theorem checkpoint_failure_ends_run:
  "do_training (default_args\<lparr>target_epochs := 2, checkpoint_every_epochs := 1\<rparr>)
     \<lparr>quit_before = False, epochs = [calm\<lparr>model_save_raises := True\<rparr>, calm],
      final_unwritable = False\<rparr> Map.empty \<noteq> None
   \<and> caught (the (do_training (default_args\<lparr>target_epochs := 2, checkpoint_every_epochs := 1\<rparr>)
       \<lparr>quit_before = False, epochs = [calm\<lparr>model_save_raises := True\<rparr>, calm],
        final_unwritable = False\<rparr> Map.empty)) = Some IOError
   \<and> num_epochs (final (the (do_training
       (default_args\<lparr>target_epochs := 2, checkpoint_every_epochs := 1\<rparr>)
       \<lparr>quit_before = False, epochs = [calm\<lparr>model_save_raises := True\<rparr>, calm],
        final_unwritable = False\<rparr> Map.empty))) = 1
   \<and> train_calls (events (the (do_training
       (default_args\<lparr>target_epochs := 2, checkpoint_every_epochs := 1\<rparr>)
       \<lparr>quit_before = False, epochs = [calm\<lparr>model_save_raises := True\<rparr>, calm],
        final_unwritable = False\<rparr> Map.empty))) = 1
   \<and> should_graceful_exit (final (the (do_training
       (default_args\<lparr>target_epochs := 2, checkpoint_every_epochs := 1\<rparr>)
       \<lparr>quit_before = False, epochs = [calm\<lparr>model_save_raises := True\<rparr>, calm],
        final_unwritable = False\<rparr> Map.empty))) = False
   \<and> train_calls (events (the (do_training
       (default_args\<lparr>target_epochs := 2, checkpoint_every_epochs := 1\<rparr>)
       \<lparr>quit_before = False, epochs = [calm\<lparr>checkpoint_unwritable := True\<rparr>, calm],
        final_unwritable = False\<rparr> Map.empty))) = 1"
  by (simp add: run_defs default_args_def)

text \<open>
  Claim C2 as amended. When a checkpoint is due in a pass and \<^verbatim>\<open>model.save\<close> or the
  write of the progress copy raises, the epoch has been counted and its progress
  saved, but the exception leaves the loop: no further epoch runs. The handler
  logs the error; then the terminal handling saves the progress once more. When
  that save succeeds, the summary is reported and \<^verbatim>\<open>do_training\<close> returns
  without raising. When that save raises as well (\<open>u\<close> below), its exception
  leaves \<^verbatim>\<open>do_training\<close> and no summary is reported.
\<close>

theorem checkpoint_failure_stops_loop:
  assumes "loop_condition a w" and "\<not> train_raises e" and "\<not> save_unwritable e"
    and "should_checkpoint (num_epochs_since_checkpoint w + 1) (checkpoint_every_epochs a)"
    and "model_save_raises e \<or> checkpoint_unwritable e"
  shows "\<exists>w' evs. training_loop a (e # es) w = Some (Some IOError, w', evs)
     \<and> num_epochs w' = num_epochs w + 1
     \<and> training_iterations (training_meta w')
         = training_iterations (training_meta w) + train_epoch_steps a
     \<and> fs w' (training_meta_path a) = Some (Json_text (metadata_json (training_meta w')))
     \<and> train_calls evs = 1
     \<and> terminal_handling a u (Some IOError) w' evs =
         (if u then
            \<lparr>propagated = Some IOError, caught = Some IOError, final = w',
             events = evs @ [Error (Failed_to_train IOError)]
               @ (if should_graceful_exit w' then [Info Gracefully_shut_down] else [])\<rparr>
          else
            \<lparr>propagated = None, caught = Some IOError,
             final = w'\<lparr>fs := (fs w')(training_meta_path a \<mapsto>
                                  Json_text (metadata_json (training_meta w')))\<rparr>,
             events = evs @ [Error (Failed_to_train IOError)]
               @ (if should_graceful_exit w' then [Info Gracefully_shut_down] else [])
               @ [Metadata_save (training_meta_path a) (training_meta w'),
                  Info (Completed_epochs (num_epochs w') (train_epoch_steps a * num_epochs w')
                          (training_iterations (training_meta w'))),
                  Info (Model_saved_into (get_project_relative_path (output_dir a)))]\<rparr>)"
proof -
  obtain x w' evs where body: "epoch_body a e w = (x, w', evs)" by (cases "epoch_body a e w")
  have x: "x = Some IOError"
    using body assms(2-5) by (auto simp: epoch_body_def Let_def save_def split: if_splits)
  have loop: "training_loop a (e # es) w = Some (Some IOError, w', evs)"
    using assms(1) body x by simp
  note p = epoch_body_progress [OF assms(2,3) body]
  have "terminal_handling a u (Some IOError) w' evs =
         (if u then
            \<lparr>propagated = Some IOError, caught = Some IOError, final = w',
             events = evs @ [Error (Failed_to_train IOError)]
               @ (if should_graceful_exit w' then [Info Gracefully_shut_down] else [])\<rparr>
          else
            \<lparr>propagated = None, caught = Some IOError,
             final = w'\<lparr>fs := (fs w')(training_meta_path a \<mapsto>
                                  Json_text (metadata_json (training_meta w')))\<rparr>,
             events = evs @ [Error (Failed_to_train IOError)]
               @ (if should_graceful_exit w' then [Info Gracefully_shut_down] else [])
               @ [Metadata_save (training_meta_path a) (training_meta w'),
                  Info (Completed_epochs (num_epochs w') (train_epoch_steps a * num_epochs w')
                          (training_iterations (training_meta w'))),
                  Info (Model_saved_into (get_project_relative_path (output_dir a)))]\<rparr>)"
    by (simp add: terminal_handling_def save_def save_steps_def Let_def)
  with loop p show ?thesis by simp
qed

theorem checkpoint_failure_stops_loop_witness:
  "\<exists>w' evs.
     training_loop (default_args\<lparr>checkpoint_every_epochs := 1\<rparr>)
       [calm\<lparr>model_save_raises := True\<rparr>, calm]
       \<lparr>training_meta = \<lparr>training_iterations = 0, tokenizer_index = LocalPath ''tok''\<rparr>,
        num_epochs = 0, num_epochs_since_checkpoint = 0, should_graceful_exit = False,
        fs = Map.empty\<rparr> = Some (Some IOError, w', evs)
     \<and> num_epochs w' = 1 \<and> training_iterations (training_meta w') = 100
     \<and> train_calls evs = 1
     \<and> propagated (terminal_handling (default_args\<lparr>checkpoint_every_epochs := 1\<rparr>) False
          (Some IOError) w' evs) = None
     \<and> propagated (terminal_handling (default_args\<lparr>checkpoint_every_epochs := 1\<rparr>) True
          (Some IOError) w' evs) = Some IOError"
proof -
  let ?a = "default_args\<lparr>checkpoint_every_epochs := 1\<rparr>"
  let ?e = "calm\<lparr>model_save_raises := True\<rparr>"
  let ?w = "\<lparr>training_meta = \<lparr>training_iterations = 0, tokenizer_index = LocalPath ''tok''\<rparr>,
        num_epochs = 0, num_epochs_since_checkpoint = 0, should_graceful_exit = False,
        fs = Map.empty\<rparr>"
  have 1: "loop_condition ?a ?w" by (simp add: loop_condition_def default_args_def)
  have 2: "\<not> train_raises ?e" and 3: "\<not> save_unwritable ?e" by (simp_all add: calm_def)
  have 4: "should_checkpoint (num_epochs_since_checkpoint ?w + 1) (checkpoint_every_epochs ?a)"
    by (simp add: should_checkpoint_def)
  have 5: "model_save_raises ?e \<or> checkpoint_unwritable ?e" by simp
  have steps: "train_epoch_steps ?a = 100" by (simp add: default_args_def)
  from checkpoint_failure_stops_loop [OF 1 2 3 4 5, of "[calm]" False]
  obtain w' evs where f:
    "training_loop ?a [?e, calm] ?w = Some (Some IOError, w', evs)"
    "num_epochs w' = num_epochs ?w + 1"
    "training_iterations (training_meta w')
       = training_iterations (training_meta ?w) + train_epoch_steps ?a"
    "train_calls evs = 1"
    "propagated (terminal_handling ?a False (Some IOError) w' evs) = None"
    by auto
  have t: "propagated (terminal_handling ?a True (Some IOError) w' evs) = Some IOError"
    by (simp add: terminal_handling_final)
  from f t steps show ?thesis by (simp del: training_loop.simps)
qed

text \<open>
  Claim C3 does not hold as stated: when \<^verbatim>\<open>model.train\<close> raises, the handler logs
  the error before the terminal handling runs, and \<^verbatim>\<open>do_training\<close> returns without
  raising: no exception reaches its caller.
\<close>

theorem executor_error_not_propagated:
  "do_training default_args
     \<lparr>quit_before = False, epochs = [calm\<lparr>train_raises := True\<rparr>],
      final_unwritable = False\<rparr> Map.empty \<noteq> None
   \<and> propagated (the (do_training default_args
       \<lparr>quit_before = False, epochs = [calm\<lparr>train_raises := True\<rparr>],
        final_unwritable = False\<rparr> Map.empty)) = None
   \<and> events (the (do_training default_args
       \<lparr>quit_before = False, epochs = [calm\<lparr>train_raises := True\<rparr>],
        final_unwritable = False\<rparr> Map.empty)) =
         [Info (Saving_model_into ''models/model''),
          Model_train (LocalPath ''models/model'') 100 100,
          Error (Failed_to_train ExecutorError),
          Metadata_save (LocalPath ''models/model/training-metadata.json'')
            \<lparr>training_iterations = 0,
             tokenizer_index = LocalPath ''training-data/tokenizer-index.json''\<rparr>,
          Info (Completed_epochs 0 0 0),
          Info (Model_saved_into ''models/model'')]"
  by (simp add: run_defs default_args_def)

text \<open>
  Claim C3 as amended. When \<^verbatim>\<open>model.train\<close> raises in a pass, the loop stops with
  the counters and the progress of the epochs completed before. The handler
  catches the error and logs it first; then the terminal handling saves that
  progress once more. The error of the training step is never raised again.
  When the final save succeeds, the summary is logged and \<^verbatim>\<open>do_training\<close>
  returns normally. When the final save raises (\<open>u\<close> below), its exception
  leaves \<^verbatim>\<open>do_training\<close> and no summary is logged.
\<close>

theorem executor_error_handling:
  assumes "loop_condition a w" and "train_raises e"
  shows "training_loop a (e # es) w
      = Some (Some ExecutorError, w\<lparr>should_graceful_exit := quit_during e\<rparr>,
              [Model_train (output_dir a) (train_epoch_steps a) (sample_every a)])
    \<and> terminal_handling a u (Some ExecutorError) (w\<lparr>should_graceful_exit := quit_during e\<rparr>) evs
      = (if u then
           \<lparr>propagated = Some IOError, caught = Some ExecutorError,
            final = w\<lparr>should_graceful_exit := quit_during e\<rparr>,
            events = evs @ [Error (Failed_to_train ExecutorError)]
              @ (if quit_during e then [Info Gracefully_shut_down] else [])\<rparr>
         else
           \<lparr>propagated = None, caught = Some ExecutorError,
            final = w\<lparr>should_graceful_exit := quit_during e,
                      fs := (fs w)(training_meta_path a \<mapsto>
                                Json_text (metadata_json (training_meta w)))\<rparr>,
            events = evs @ [Error (Failed_to_train ExecutorError)]
              @ (if quit_during e then [Info Gracefully_shut_down] else [])
              @ [Metadata_save (training_meta_path a) (training_meta w),
                 Info (Completed_epochs (num_epochs w) (train_epoch_steps a * num_epochs w)
                         (training_iterations (training_meta w))),
                 Info (Model_saved_into (get_project_relative_path (output_dir a)))]\<rparr>)"
proof -
  from assms(1) have "\<not> should_graceful_exit w" by (simp add: loop_condition_def)
  then have body: "epoch_body a e w
      = (Some ExecutorError, w\<lparr>should_graceful_exit := quit_during e\<rparr>,
         [Model_train (output_dir a) (train_epoch_steps a) (sample_every a)])"
    using assms(2) by (simp add: epoch_body_def)
  have "training_loop a (e # es) w
      = Some (Some ExecutorError, w\<lparr>should_graceful_exit := quit_during e\<rparr>,
              [Model_train (output_dir a) (train_epoch_steps a) (sample_every a)])"
    using assms(1) by (simp add: body)
  then show ?thesis
    by (simp add: terminal_handling_def save_def save_steps_def Let_def)
qed

theorem executor_error_handling_witness:
  "training_loop default_args [calm\<lparr>train_raises := True\<rparr>]
     \<lparr>training_meta = \<lparr>training_iterations = 200, tokenizer_index = LocalPath ''tok''\<rparr>,
      num_epochs = 2, num_epochs_since_checkpoint = 2, should_graceful_exit = False,
      fs = Map.empty\<rparr>
   = Some (Some ExecutorError,
       \<lparr>training_meta = \<lparr>training_iterations = 200, tokenizer_index = LocalPath ''tok''\<rparr>,
        num_epochs = 2, num_epochs_since_checkpoint = 2, should_graceful_exit = False,
        fs = Map.empty\<rparr>,
       [Model_train (LocalPath ''models/model'') 100 100])
   \<and> propagated (terminal_handling default_args False (Some ExecutorError)
       \<lparr>training_meta = \<lparr>training_iterations = 200, tokenizer_index = LocalPath ''tok''\<rparr>,
        num_epochs = 2, num_epochs_since_checkpoint = 2, should_graceful_exit = False,
        fs = Map.empty\<rparr> []) = None
   \<and> terminal_handling default_args True (Some ExecutorError)
       \<lparr>training_meta = \<lparr>training_iterations = 200, tokenizer_index = LocalPath ''tok''\<rparr>,
        num_epochs = 2, num_epochs_since_checkpoint = 2, should_graceful_exit = False,
        fs = Map.empty\<rparr> []
     = \<lparr>propagated = Some IOError, caught = Some ExecutorError,
        final = \<lparr>training_meta = \<lparr>training_iterations = 200, tokenizer_index = LocalPath ''tok''\<rparr>,
          num_epochs = 2, num_epochs_since_checkpoint = 2, should_graceful_exit = False,
          fs = Map.empty\<rparr>,
        events = [Error (Failed_to_train ExecutorError)]\<rparr>"
proof -
  let ?w = "\<lparr>training_meta = \<lparr>training_iterations = 200, tokenizer_index = LocalPath ''tok''\<rparr>,
      num_epochs = 2, num_epochs_since_checkpoint = 2, should_graceful_exit = False,
      fs = Map.empty\<rparr>"
  have 1: "loop_condition default_args ?w" by (simp add: loop_condition_def default_args_def)
  have 2: "train_raises (calm\<lparr>train_raises := True\<rparr>)" by simp
  have 3: "?w\<lparr>should_graceful_exit := quit_during (calm\<lparr>train_raises := True\<rparr>)\<rparr> = ?w"
    by (simp add: calm_def)
  have q: "quit_during (calm\<lparr>train_raises := True\<rparr>) = False" by (simp add: calm_def)
  from executor_error_handling [OF 1 2, of "[]" False "[]"]
    executor_error_handling [OF 1 2, of "[]" True "[]"]
  show ?thesis unfolding 3 q by (simp add: default_args_def output_dir_def)
qed

subsection \<open>Cadences that are not positive\<close>




subsection \<open>How a save reaches the file\<close>

text \<open>
  Claim C7 does not hold: a save over an existing progress file goes through a
  state of the file system in which the file is empty. A reader that loads the
  file in that state gets neither the old progress nor the new one, but a
  \<^verbatim>\<open>JSONDecodeError\<close>.
\<close>

theorem save_not_atomic:
  "load (LocalPath ''models/model/training-metadata.json'')
     [LocalPath ''models/model/training-metadata.json'' \<mapsto>
        Json_text (metadata_json \<lparr>training_iterations = 100, tokenizer_index = LocalPath ''tok''\<rparr>)]
     = Inr \<lparr>training_iterations = 100, tokenizer_index = LocalPath ''tok''\<rparr>
   \<and> (save_steps \<lparr>training_iterations = 200, tokenizer_index = LocalPath ''tok''\<rparr>
        (LocalPath ''models/model/training-metadata.json'')
        [LocalPath ''models/model/training-metadata.json'' \<mapsto>
           Json_text (metadata_json \<lparr>training_iterations = 100, tokenizer_index = LocalPath ''tok''\<rparr>)]
        ! 0) (LocalPath ''models/model/training-metadata.json'') = Some Empty_file
   \<and> load (LocalPath ''models/model/training-metadata.json'')
       (save_steps \<lparr>training_iterations = 200, tokenizer_index = LocalPath ''tok''\<rparr>
          (LocalPath ''models/model/training-metadata.json'')
          [LocalPath ''models/model/training-metadata.json'' \<mapsto>
             Json_text (metadata_json \<lparr>training_iterations = 100, tokenizer_index = LocalPath ''tok''\<rparr>)]
        ! 0)
     = Inl JSONDecodeError"
  by (simp add: save_steps_def load_def metadata_json_def)

text \<open>
  Claim C7 as amended. A save overwrites the file in place, in two steps: opening
  the location for writing leaves the file empty, a state in which it does not
  load; writing the document then leaves the complete document, which loads to
  the saved value. That last state is what \<^verbatim>\<open>save\<close> returns with, and no step
  touches any other file.
\<close>

theorem save_in_place:
  "length (save_steps m loc files) = 2
   \<and> (save_steps m loc files ! 0) loc = Some Empty_file
   \<and> load loc (save_steps m loc files ! 0) = Inl JSONDecodeError
   \<and> load loc (save_steps m loc files ! 1) = Inr m
   \<and> save False m loc files = Inr (save_steps m loc files ! 1)
   \<and> list_all (\<lambda>F. F(loc := None) = files(loc := None)) (save_steps m loc files)"
  by (simp add: save_steps_def save_def load_metadata_json) (simp add: load_def)

theorem save_in_place_witness:
  "load (LocalPath ''p'')
     (save_steps \<lparr>training_iterations = 200, tokenizer_index = LocalPath ''tok''\<rparr>
        (LocalPath ''p'') Map.empty ! 0) = Inl JSONDecodeError
   \<and> load (LocalPath ''p'')
     (save_steps \<lparr>training_iterations = 200, tokenizer_index = LocalPath ''tok''\<rparr>
        (LocalPath ''p'') Map.empty ! 1)
     = Inr \<lparr>training_iterations = 200, tokenizer_index = LocalPath ''tok''\<rparr>"
  using save_in_place [of "\<lparr>training_iterations = 200, tokenizer_index = LocalPath ''tok''\<rparr>"
      "LocalPath ''p''" Map.empty]
  by simp

subsection \<open>The operator console\<close>

lemma strip_core:
  assumes "list_all isspace pre" and "list_all isspace post"
    and "word = [] \<or> (\<not> isspace (hd word) \<and> \<not> isspace (last word))"
  shows "strip (pre @ word @ post) = word"
proof (cases "word = []")
  case True
  have d: "dropWhile isspace (pre @ post) = []"
    using assms(1,2) by (simp add: dropWhile_eq_Nil_conv list_all_iff)
  have "strip (pre @ post) = []"
    unfolding strip_def by (simp only: d rev.simps dropWhile.simps)
  with True show ?thesis by simp
next
  case False
  with assms(3) have h: "\<not> isspace (hd word)" and l: "\<not> isspace (last word)" by simp_all
  have "dropWhile isspace (pre @ word @ post) = dropWhile isspace (word @ post)"
    using assms(1) by (intro dropWhile_append2) (simp add: list_all_iff)
  also have "\<dots> = word @ post"
    using False h by (cases word) simp_all
  finally have 1: "dropWhile isspace (pre @ word @ post) = word @ post" .
  have "dropWhile isspace (rev post @ rev word) = dropWhile isspace (rev word)"
    using assms(2) by (intro dropWhile_append2) (simp add: list_all_iff)
  also have "\<dots> = rev word"
    using False l by (cases "rev word") (simp_all add: last_rev [symmetric] hd_rev)
  finally show ?thesis by (simp add: strip_def 1)
qed

lemma strip_decomposition:
  "\<exists>pre post. line = pre @ strip line @ post \<and> list_all isspace pre \<and> list_all isspace post
     \<and> (strip line = [] \<or> (\<not> isspace (hd (strip line)) \<and> \<not> isspace (last (strip line))))"
proof -
  let ?ys = "dropWhile isspace line"
  let ?post = "rev (takeWhile isspace (rev ?ys))"
  have r: "rev (dropWhile isspace zs) @ rev (takeWhile isspace zs) = rev zs" for zs
    by (simp only: rev_append [symmetric] takeWhile_dropWhile_id)
  have ys: "?ys = strip line @ ?post"
    unfolding strip_def using r [of "rev ?ys"] by (simp only: rev_rev_ident)
  have "line = takeWhile isspace line @ ?ys" by simp
  with ys have line: "line = takeWhile isspace line @ strip line @ ?post" by simp
  have pre: "list_all isspace (takeWhile isspace line)"
    by (simp add: list_all_iff) (meson set_takeWhileD)
  have post: "list_all isspace ?post"
    by (simp add: list_all_iff) (meson set_takeWhileD)
  have ends: "\<not> isspace (hd (strip line)) \<and> \<not> isspace (last (strip line))" if ne: "strip line \<noteq> []"
  proof
    from ne ys have "?ys \<noteq> []" by (metis append_is_Nil_conv)
    then have "\<not> isspace (hd ?ys)" by (rule hd_dropWhile)
    moreover have "hd ?ys = hd (strip line)" using ne ys by (metis hd_append2)
    ultimately show "\<not> isspace (hd (strip line))" by simp
    from ne have d: "dropWhile isspace (rev ?ys) \<noteq> []" by (simp add: strip_def)
    then have "\<not> isspace (hd (dropWhile isspace (rev ?ys)))" by (rule hd_dropWhile)
    then show "\<not> isspace (last (strip line))" using d by (simp add: strip_def last_rev)
  qed
  from line pre post ends show ?thesis by blast
qed

text \<open>
  Claim C10. Every line is its stripped form between whitespace, and the
  stripped form has no whitespace at its ends. A line that is a word between any leading and trailing whitespace
  is handled as the word alone (the word having no whitespace at its own ends).
  The word \<^verbatim>\<open>quit\<close> sets the shutdown event and ends the console loop, leaving
  the later lines unread; \<^verbatim>\<open>help\<close> logs the two lines of the command list and
  goes on with the next line; every other word, \<^verbatim>\<open>Quit\<close> among them, is reported
  as unrecognized and the loop goes on with the next line, the event untouched.
\<close>

theorem console_strips_then_matches:
  assumes "list_all isspace pre" and "list_all isspace post"
    and "word = [] \<or> (\<not> isspace (hd word) \<and> \<not> isspace (last word))"
  shows "(\<exists>pre' post'. line = pre' @ strip line @ post'
           \<and> list_all isspace pre' \<and> list_all isspace post'
           \<and> (strip line = [] \<or> (\<not> isspace (hd (strip line)) \<and> \<not> isspace (last (strip line)))))
    \<and> strip (pre @ word @ post) = word
    \<and> console_loop ((pre @ word @ post) # lines) =
        (if word = literal ''quit'' then
           \<lparr>console_raised = None, signal_set = True,
            console_events = [Info Attempting_graceful_shutdown], unread = lines\<rparr>
         else if word = literal ''help'' then
           (console_loop lines)\<lparr>console_events :=
              [Info Management_commands_available, Info Quit_command_description]
              @ console_events (console_loop lines)\<rparr>
         else
           (console_loop lines)\<lparr>console_events :=
              Info (Unrecognized_command word) # console_events (console_loop lines)\<rparr>)
    \<and> literal ''Quit'' \<noteq> literal ''quit'' \<and> literal ''Quit'' \<noteq> literal ''help''"
  using strip_core [OF assms] strip_decomposition [of line] by (simp add: Let_def literal_def)

theorem console_strips_then_matches_witness:
  "console_loop [literal ''  quit  '', literal ''help''] =
     \<lparr>console_raised = None, signal_set = True,
      console_events = [Info Attempting_graceful_shutdown], unread = [literal ''help'']\<rparr>
   \<and> console_loop [literal '' help '', literal ''  quit  ''] =
     \<lparr>console_raised = None, signal_set = True,
      console_events = [Info Management_commands_available, Info Quit_command_description,
                        Info Attempting_graceful_shutdown],
      unread = []\<rparr>
   \<and> console_loop [literal ''Quit'', literal ''  quit  ''] =
     \<lparr>console_raised = None, signal_set = True,
      console_events = [Info (Unrecognized_command (literal ''Quit'')),
                        Info Attempting_graceful_shutdown],
      unread = []\<rparr>
   \<and> signal_set (do_management [literal ''Quit'']) = False
   \<and> signal_set (do_management [literal ''Quit'', literal ''  quit  '']) = True"
proof -
  have sp: "list_all isspace (literal ''  '')" "list_all isspace (literal '' '')" "list_all isspace []"
    by (simp_all add: literal_def isspace_def)
  have q: "literal ''quit'' = [] \<or> (\<not> isspace (hd (literal ''quit'')) \<and> \<not> isspace (last (literal ''quit'')))"
    by (simp add: literal_def isspace_def)
  have h: "literal ''help'' = [] \<or> (\<not> isspace (hd (literal ''help'')) \<and> \<not> isspace (last (literal ''help'')))"
    by (simp add: literal_def isspace_def)
  have u: "literal ''Quit'' = [] \<or> (\<not> isspace (hd (literal ''Quit'')) \<and> \<not> isspace (last (literal ''Quit'')))"
    by (simp add: literal_def isspace_def)
  have eq: "literal ''  quit  '' = literal ''  '' @ literal ''quit'' @ literal ''  ''"
    "literal '' help '' = literal '' '' @ literal ''help'' @ literal '' ''"
    "literal ''Quit'' = [] @ literal ''Quit'' @ []"
    by (simp_all add: literal_def)
  have ne: "literal ''help'' \<noteq> literal ''quit''" by (simp add: literal_def)
  have 1: "console_loop (literal ''  quit  '' # lines) =
     \<lparr>console_raised = None, signal_set = True,
      console_events = [Info Attempting_graceful_shutdown], unread = lines\<rparr>" for lines
    using console_strips_then_matches [OF sp(1) sp(1) q, of _ lines] unfolding eq(1)
    by (simp del: console_loop.simps)
  have 2: "console_loop (literal '' help '' # lines) =
     (console_loop lines)\<lparr>console_events :=
        [Info Management_commands_available, Info Quit_command_description]
        @ console_events (console_loop lines)\<rparr>" for lines
    using console_strips_then_matches [OF sp(2) sp(2) h, of _ lines] ne unfolding eq(2)
    by (simp del: console_loop.simps)
  have 3: "console_loop (literal ''Quit'' # lines) =
     (console_loop lines)\<lparr>console_events :=
        Info (Unrecognized_command (literal ''Quit'')) # console_events (console_loop lines)\<rparr>" for lines
  proof -
    from console_strips_then_matches [OF sp(3) sp(3) u, of _ lines]
    show ?thesis by (simp del: console_loop.simps)
  qed
  have 4: "signal_set (do_management [literal ''Quit'']) = False"
    by (simp add: do_management_def 3 del: console_loop.simps) simp
  have 5: "signal_set (do_management [literal ''Quit'', literal ''  quit  '']) = True"
    by (simp add: do_management_def 3 1 del: console_loop.simps)
  have 6: "console_loop [literal '' help '', literal ''  quit  ''] =
     \<lparr>console_raised = None, signal_set = True,
      console_events = [Info Management_commands_available, Info Quit_command_description,
                        Info Attempting_graceful_shutdown],
      unread = []\<rparr>"
    by (simp add: 2 1 del: console_loop.simps)
  have 7: "console_loop [literal ''Quit'', literal ''  quit  ''] =
     \<lparr>console_raised = None, signal_set = True,
      console_events = [Info (Unrecognized_command (literal ''Quit'')),
                        Info Attempting_graceful_shutdown],
      unread = []\<rparr>"
    by (simp add: 3 1 del: console_loop.simps)
  from 1 [of "[literal ''help'']"] 6 7 4 5 show ?thesis by blast
qed

end
